theory Spec2Isabelle
  imports Main "HOL-Library.Sublist"
begin

section \<open>Data model\<close>

subsection \<open>Topic (models/topic.py)\<close>

text \<open>
  \<^verbatim>\<open>datetime\<close> values are opaque time stamps; a \<^verbatim>\<open>Decimal\<close> is kept as a pair of
  coefficient and exponent. Neither is inspected by the code modelled here. A string is
  the list of the bytes of its text.
\<close>

type_synonym datetime = nat
type_synonym decimal = "int \<times> int"

record Topic =
  topic_id :: string
  market_id :: int
  question :: string
  description :: "string option"
  end_date :: "datetime option"
  outcome_type :: string
  volume :: "decimal option"
  last_price :: "string option"
  yes_price :: "string option"
  no_price :: "string option"
  liquidity :: "string option"
  created_at :: "datetime option"
  updated_at :: "datetime option"
  categories :: "string list option"
  slug :: "string option"

subsection \<open>Typed stream messages (models/websocket.py)\<close>

datatype MessageType = DEPTH_DIFF | LAST_PRICE | LAST_TRADE

datatype ws_message =
    is_DepthDiffMessage: DepthDiffMessage
      (msg_market_id: int) (msg_token_id: string) (msg_outcome_side: int)
      (msg_side: string) (msg_price: string) (msg_size: string) (msg_type: MessageType)
  | is_LastPriceMessage: LastPriceMessage
      (msg_market_id: int) (msg_token_id: string) (msg_outcome_side: int)
      (msg_price: string) (msg_type: MessageType)
  | is_LastTradeMessage: LastTradeMessage
      (msg_market_id: int) (msg_token_id: string) (msg_outcome_side: int)
      (msg_side: string) (msg_price: string) (msg_shares: string) (msg_amount: string)
      (msg_type: MessageType)

subsection \<open>Python objects and the ordered dictionary\<close>

text \<open>
  Topic objects are mutable and shared by reference: the cache, the lists it returns and
  its callers all hold references to the same objects. A reference is an address; the
  heap gives the current field values of the object at each address.
\<close>

type_synonym addr = nat
type_synonym heap = "addr \<Rightarrow> Topic"

datatype py_error = KeyError

text \<open>
  An \<^verbatim>\<open>OrderedDict\<close> is an association list in insertion order with distinct keys.
  \<^verbatim>\<open>k in d\<close>, \<^verbatim>\<open>d.get(k)\<close>, \<^verbatim>\<open>del d[k]\<close> (raises on a missing key), \<^verbatim>\<open>d[k] = v\<close> (an existing
  key keeps its position, a new key goes to the end), \<^verbatim>\<open>d.popitem(last=False)\<close> (raises on
  an empty dictionary) and \<^verbatim>\<open>d.values()\<close>:
\<close>

type_synonym ('k, 'v) odict = "('k \<times> 'v) list"

definition od_contains :: "'k \<Rightarrow> ('k, 'v) odict \<Rightarrow> bool" where
  "od_contains k d = (k \<in> set (map fst d))"

definition od_get :: "('k, 'v) odict \<Rightarrow> 'k \<Rightarrow> 'v option" where
  "od_get d k = map_of d k"

definition od_del :: "'k \<Rightarrow> ('k, 'v) odict \<Rightarrow> py_error + ('k, 'v) odict" where
  "od_del k d =
     (if od_contains k d then Inr (filter (\<lambda>kv. fst kv \<noteq> k) d) else Inl KeyError)"

definition od_setitem :: "'k \<Rightarrow> 'v \<Rightarrow> ('k, 'v) odict \<Rightarrow> ('k, 'v) odict" where
  "od_setitem k v d =
     (if od_contains k d then map (\<lambda>kv. if fst kv = k then (k, v) else kv) d
      else d @ [(k, v)])"

definition od_popitem_first :: "('k, 'v) odict \<Rightarrow> py_error + ('k, 'v) odict" where
  "od_popitem_first d = (case d of [] \<Rightarrow> Inl KeyError | _ # rest \<Rightarrow> Inr rest)"

definition od_values :: "('k, 'v) odict \<Rightarrow> 'v list" where
  "od_values d = map snd d"

subsection \<open>Strings\<close>

text \<open>
  \<^verbatim>\<open>str.lower\<close> and \<^verbatim>\<open>str.split\<close> belong to the interpreter: they follow its Unicode
  tables, and \<^verbatim>\<open>lower\<close> is neither a map over the characters nor length-preserving.
  The code is modelled for whatever these two functions are; they are parameters.
\<close>

record str_ops =
  str_lower :: "string \<Rightarrow> string"
  str_split :: "string \<Rightarrow> string list"

text \<open>\<^verbatim>\<open>needle in hay\<close> on strings: \<open>needle\<close> starts at some position of \<open>hay\<close>.\<close>

fun startswith :: "string \<Rightarrow> string \<Rightarrow> bool" where
  "startswith hay [] = True"
| "startswith [] (n # ns) = False"
| "startswith (h # hs) (n # ns) = (h = n \<and> startswith hs ns)"

fun str_in :: "string \<Rightarrow> string \<Rightarrow> bool" where
  "str_in needle [] = (needle = [])"
| "str_in needle (h # hs) = (startswith (h # hs) needle \<or> str_in needle hs)"

section \<open>The topic cache (services/cache\_service.py)\<close>

text \<open>
  The state is the heap of Topic objects together with the three attributes of
  \<^verbatim>\<open>CacheService\<close>: \<^verbatim>\<open>_topics\<close> (market id to Topic reference), \<^verbatim>\<open>_max_size\<close> and
  \<^verbatim>\<open>_search_index\<close> (word to set of market ids). The lock serialises the operations, so
  each one is a function on the state.
\<close>

record cache_state =
  heap :: heap
  topics :: "(int, addr) odict"
  max_size :: int
  search_index :: "string \<rightharpoonup> int set"

text \<open>
  \<^verbatim>\<open>__init__(max_size)\<close>: \<^verbatim>\<open>max_size or settings.cache_max_size\<close> takes the setting when
  the argument is 0. The setting is a parameter.
\<close>

definition CacheService_init :: "int \<Rightarrow> int \<Rightarrow> heap \<Rightarrow> cache_state" where
  "CacheService_init max_size_arg cache_max_size h =
     \<lparr>heap = h, topics = [],
      max_size = (if max_size_arg \<noteq> 0 then max_size_arg else cache_max_size),
      search_index = Map.empty\<rparr>"

definition get_topic :: "int \<Rightarrow> cache_state \<Rightarrow> addr option" where
  "get_topic mid s = od_get (topics s) mid"

definition topic_words :: "str_ops \<Rightarrow> Topic \<Rightarrow> string set" where
  "topic_words ops t =
     set (str_split ops (str_lower ops (question t)))
     \<union> (case description t of
          None \<Rightarrow> {}
        | Some d \<Rightarrow> if d = [] then {} else set (str_split ops (str_lower ops d)))
     \<union> (case categories t of
          None \<Rightarrow> {}
        | Some cs \<Rightarrow> \<Union> (set (map (\<lambda>c. set (str_split ops (str_lower ops c))) cs)))"

definition update_search_index ::
  "str_ops \<Rightarrow> Topic \<Rightarrow> (string \<rightharpoonup> int set) \<Rightarrow> (string \<rightharpoonup> int set)" where
  "update_search_index ops t idx =
     (\<lambda>w. if w \<in> topic_words ops t
          then Some (insert (market_id t) (case idx w of None \<Rightarrow> {} | Some ms \<Rightarrow> ms))
          else idx w)"

text \<open>\<^verbatim>\<open>set_topic(topic)\<close>; the argument is a reference to the Topic object.\<close>

definition set_topic :: "str_ops \<Rightarrow> addr \<Rightarrow> cache_state \<Rightarrow> py_error + cache_state" where
  "set_topic ops a s =
     (let mid = market_id (heap s a)
      in case (if od_contains mid (topics s) then od_del mid (topics s) else Inr (topics s)) of
           Inl e \<Rightarrow> Inl e
         | Inr d1 \<Rightarrow>
             (let d2 = od_setitem mid a d1;
                  idx = update_search_index ops (heap s a) (search_index s)
              in if int (length d2) > max_size s
                 then (case od_popitem_first d2 of
                         Inl e \<Rightarrow> Inl e
                       | Inr d3 \<Rightarrow> Inr (s\<lparr>topics := d3, search_index := idx\<rparr>))
                 else Inr (s\<lparr>topics := d2, search_index := idx\<rparr>)))"

definition get_all_topics :: "cache_state \<Rightarrow> addr list" where
  "get_all_topics s = od_values (topics s)"

definition get_topic_count :: "cache_state \<Rightarrow> nat" where
  "get_topic_count s = length (topics s)"

text \<open>
  \<^verbatim>\<open>update_price\<close>: the Topic object found under the key is assigned to in place.
  \<open>now\<close> is the value of \<^verbatim>\<open>datetime.now()\<close>.
\<close>

definition update_price :: "int \<Rightarrow> int \<Rightarrow> string \<Rightarrow> datetime \<Rightarrow> cache_state \<Rightarrow> cache_state" where
  "update_price mid outcome_side price now s =
     (case od_get (topics s) mid of
        None \<Rightarrow> s
      | Some a \<Rightarrow>
          (let t = heap s a;
               t1 = (if outcome_side = 1 then t\<lparr>yes_price := Some price, last_price := Some price\<rparr>
                     else if outcome_side = 2 then t\<lparr>no_price := Some price\<rparr>
                     else t);
               t2 = t1\<lparr>updated_at := Some now\<rparr>
           in s\<lparr>heap := (heap s)(a := t2)\<rparr>))"

definition update_from_ws_message :: "ws_message \<Rightarrow> datetime \<Rightarrow> cache_state \<Rightarrow> cache_state" where
  "update_from_ws_message message now s =
     (case od_get (topics s) (msg_market_id message) of
        None \<Rightarrow> s
      | Some a \<Rightarrow>
          (let t = heap s a;
               t1 = t\<lparr>updated_at := Some now\<rparr>;
               t2 = (case message of
                       LastPriceMessage _ _ side price _ \<Rightarrow>
                         (if side = 1 then t1\<lparr>yes_price := Some price, last_price := Some price\<rparr>
                          else if side = 2 then t1\<lparr>no_price := Some price\<rparr>
                          else t1)
                     | LastTradeMessage _ _ side _ price _ _ _ \<Rightarrow>
                         (if side = 1 then t1\<lparr>yes_price := Some price, last_price := Some price\<rparr>
                          else if side = 2 then t1\<lparr>no_price := Some price\<rparr>
                          else t1)
                     | DepthDiffMessage _ _ _ _ _ _ _ \<Rightarrow> t1)
           in s\<lparr>heap := (heap s)(a := t2)\<rparr>))"

text \<open>
  \<^verbatim>\<open>search(query, limit)\<close>. The condition of the \<^verbatim>\<open>if\<close>, with Python's truthiness of
  \<^verbatim>\<open>topic.description\<close> (neither \<^verbatim>\<open>None\<close> nor empty) and \<^verbatim>\<open>topic.categories or []\<close>:
\<close>

definition search_match :: "str_ops \<Rightarrow> string \<Rightarrow> Topic \<Rightarrow> bool" where
  "search_match ops query_lower t =
     (str_in query_lower (str_lower ops (question t))
      \<or> (case description t of
            None \<Rightarrow> False
          | Some d \<Rightarrow> d \<noteq> [] \<and> str_in query_lower (str_lower ops d))
      \<or> (case categories t of
            None \<Rightarrow> False
          | Some cs \<Rightarrow> list_ex (\<lambda>c. str_in query_lower (str_lower ops c)) cs))"

text \<open>The \<^verbatim>\<open>for\<close> loop with its \<^verbatim>\<open>break\<close>; \<open>results\<close> is the list built so far.\<close>

fun search_loop ::
  "str_ops \<Rightarrow> heap \<Rightarrow> string \<Rightarrow> int \<Rightarrow> addr list \<Rightarrow> addr list \<Rightarrow> addr list" where
  "search_loop ops h q limit [] results = results"
| "search_loop ops h q limit (a # rest) results =
     (if search_match ops q (h a)
      then (let results' = results @ [a]
            in if int (length results') \<ge> limit then results'
               else search_loop ops h q limit rest results')
      else search_loop ops h q limit rest results)"

definition search :: "str_ops \<Rightarrow> string \<Rightarrow> int \<Rightarrow> cache_state \<Rightarrow> addr list" where
  "search ops query limit s =
     search_loop ops (heap s) (str_lower ops query) limit (od_values (topics s)) []"

text \<open>\<^verbatim>\<open>initialize_topics(topics)\<close>: one plain item assignment per Topic.\<close>

fun initialize_topics :: "str_ops \<Rightarrow> addr list \<Rightarrow> cache_state \<Rightarrow> cache_state" where
  "initialize_topics ops [] s = s"
| "initialize_topics ops (a # rest) s =
     initialize_topics ops rest
       (s\<lparr>topics := od_setitem (market_id (heap s a)) a (topics s),
          search_index := update_search_index ops (heap s a) (search_index s)\<rparr>)"

text \<open>A sequence of \<^verbatim>\<open>set_topic\<close> calls; an exception would end it.\<close>

fun upserts :: "str_ops \<Rightarrow> addr list \<Rightarrow> cache_state \<Rightarrow> py_error + cache_state" where
  "upserts ops [] s = Inr s"
| "upserts ops (a # rest) s =
     (case set_topic ops a s of Inl e \<Rightarrow> Inl e | Inr s' \<Rightarrow> upserts ops rest s')"

section \<open>The stream consumer (websocket/consumer.py)\<close>

subsection \<open>Outbound frames\<close>

text \<open>
  A frame is the dictionary handed to \<^verbatim>\<open>json.dumps\<close>, as its items in insertion order.
\<close>

datatype json = JStr string | JInt int

type_synonym frame = "(string \<times> json) list"

record WebSocketSubscribeMessage =
  action :: string
  channel :: string
  sub_market_id :: "int option"
  root_market_id :: "int option"

definition to_json :: "WebSocketSubscribeMessage \<Rightarrow> frame" where
  "to_json m =
     [(''action'', JStr (action m)), (''channel'', JStr (channel m))]
     @ (case sub_market_id m of None \<Rightarrow> [] | Some i \<Rightarrow> [(''marketId'', JInt i)])
     @ (case root_market_id m of None \<Rightarrow> [] | Some i \<Rightarrow> [(''rootMarketId'', JInt i)])"

definition heartbeat_frame :: frame where
  "heartbeat_frame = [(''action'', JStr ''HEARTBEAT'')]"

subsection \<open>The socket object\<close>

text \<open>
  \<^verbatim>\<open>websocket.WebSocketApp\<close> belongs to a library outside the repository. The consumer
  uses three things of it: \<^verbatim>\<open>send\<close>, which raises unless the socket is connected;
  \<^verbatim>\<open>run_forever\<close>, which blocks until the connection is over and meanwhile calls the
  callbacks it was given; and \<^verbatim>\<open>close\<close>. \<open>sent\<close> lists the frames written so far.
\<close>

record WebSocketApp =
  app_url :: string
  sock_connected :: bool
  sent :: "frame list"

datatype ws_error = WebSocketConnectionClosed

definition ws_send :: "frame \<Rightarrow> WebSocketApp \<Rightarrow> ws_error + WebSocketApp" where
  "ws_send f w =
     (if sock_connected w then Inr (w\<lparr>sent := sent w @ [f]\<rparr>) else Inl WebSocketConnectionClosed)"

subsection \<open>Consumer state\<close>

record settings =
  opinion_ws_api_key :: string
  opinion_ws_url :: string
  opinion_ws_heartbeat_interval :: int

record consumer =
  api_key :: string
  url :: string
  heartbeat_interval :: int
  ws :: "WebSocketApp option"
  running :: bool
  heartbeat_task :: bool
  reconnect_delay :: int
  max_reconnect_delay :: int

text \<open>
  \<open>heartbeat_task\<close> tells whether \<^verbatim>\<open>_heartbeat_task\<close> holds a task. In \<^verbatim>\<open>__init__\<close>,
  \<^verbatim>\<open>x or default\<close> takes the default for \<^verbatim>\<open>None\<close>, the empty string and 0.
\<close>

definition str_or :: "string option \<Rightarrow> string \<Rightarrow> string" where
  "str_or x d = (case x of None \<Rightarrow> d | Some v \<Rightarrow> if v = [] then d else v)"

definition int_or :: "int option \<Rightarrow> int \<Rightarrow> int" where
  "int_or x d = (case x of None \<Rightarrow> d | Some v \<Rightarrow> if v = 0 then d else v)"

definition consumer_init :: "string option \<Rightarrow> string option \<Rightarrow> int option \<Rightarrow> settings \<Rightarrow> consumer" where
  "consumer_init api_key_arg url_arg heartbeat_interval_arg cfg =
     \<lparr>api_key = str_or api_key_arg (opinion_ws_api_key cfg),
      url = str_or url_arg (opinion_ws_url cfg),
      heartbeat_interval = int_or heartbeat_interval_arg (opinion_ws_heartbeat_interval cfg),
      ws = None,
      running = False,
      heartbeat_task = False,
      reconnect_delay = 5,
      max_reconnect_delay = 60\<rparr>"

definition is_connected :: "consumer \<Rightarrow> bool" where
  "is_connected s = (ws s \<noteq> None \<and> running s)"

subsection \<open>Subscribing\<close>

text \<open>
  \<^verbatim>\<open>_subscribe_market(market_id, outcome_type)\<close>. An exception of \<^verbatim>\<open>send\<close> leaves the
  function at once.
\<close>

definition subscribe_market :: "int \<Rightarrow> string \<Rightarrow> consumer \<Rightarrow> ws_error + consumer" where
  "subscribe_market mid otype s =
     (case ws s of
        None \<Rightarrow> Inr s
      | Some w \<Rightarrow>
          (let msg = (if otype = ''categorical''
                      then \<lparr>action = ''SUBSCRIBE'', channel = ''market.last.price'',
                            sub_market_id = None, root_market_id = Some mid\<rparr>
                      else \<lparr>action = ''SUBSCRIBE'', channel = ''market.last.price'',
                            sub_market_id = Some mid, root_market_id = None\<rparr>)
           in case ws_send (to_json msg) w of
                Inl e \<Rightarrow> Inl e
              | Inr w1 \<Rightarrow>
                  if otype \<noteq> ''categorical''
                  then (let depth_msg = \<lparr>action = ''SUBSCRIBE'', channel = ''market.depth.diff'',
                                          sub_market_id = Some mid, root_market_id = None\<rparr>
                        in case ws_send (to_json depth_msg) w1 of
                             Inl e \<Rightarrow> Inl e
                           | Inr w2 \<Rightarrow>
                               (let trade_msg = \<lparr>action = ''SUBSCRIBE'',
                                                  channel = ''market.last.trade'',
                                                  sub_market_id = Some mid, root_market_id = None\<rparr>
                                in case ws_send (to_json trade_msg) w2 of
                                     Inl e \<Rightarrow> Inl e
                                   | Inr w3 \<Rightarrow> Inr (s\<lparr>ws := Some w3\<rparr>)))
                  else Inr (s\<lparr>ws := Some w1\<rparr>)))"

text \<open>\<^verbatim>\<open>_subscribe_all_markets\<close>, over the list \<^verbatim>\<open>cache.get_all_topics()\<close> returned.\<close>

fun subscribe_each :: "heap \<Rightarrow> addr list \<Rightarrow> consumer \<Rightarrow> ws_error + consumer" where
  "subscribe_each h [] s = Inr s"
| "subscribe_each h (a # rest) s =
     (case subscribe_market (market_id (h a)) (outcome_type (h a)) s of
        Inl e \<Rightarrow> Inl e
      | Inr s' \<Rightarrow> subscribe_each h rest s')"

definition subscribe_all_markets :: "cache_state \<Rightarrow> consumer \<Rightarrow> ws_error + consumer" where
  "subscribe_all_markets c s = subscribe_each (heap c) (get_all_topics c) s"

subsection \<open>Heartbeat\<close>

text \<open>
  \<^verbatim>\<open>_heartbeat_loop\<close>: while \<^verbatim>\<open>_running\<close> and \<^verbatim>\<open>_ws\<close>, send the heartbeat frame and sleep;
  an exception ends the loop. The loop has no bound of its own, so the model runs at
  most \<open>n\<close> rounds of it.
\<close>

fun heartbeat_loop :: "nat \<Rightarrow> consumer \<Rightarrow> consumer" where
  "heartbeat_loop 0 s = s"
| "heartbeat_loop (Suc n) s =
     (case ws s of
        None \<Rightarrow> s
      | Some w \<Rightarrow>
          if running s
          then (case ws_send heartbeat_frame w of
                  Inl e \<Rightarrow> s
                | Inr w' \<Rightarrow> heartbeat_loop n (s\<lparr>ws := Some w'\<rparr>))
          else s)"

subsection \<open>Connecting\<close>

text \<open>
  What happens to the connection while \<^verbatim>\<open>run_forever\<close> blocks is given from outside, as
  the events the library reports in order. Each event runs the callback \<^verbatim>\<open>_connect\<close>
  registered for it: \<^verbatim>\<open>on_open\<close> sets \<^verbatim>\<open>_running\<close>, \<^verbatim>\<open>on_close\<close> clears it, \<^verbatim>\<open>on_message\<close>
  and \<^verbatim>\<open>on_error\<close> leave the consumer's attributes alone. The tasks that \<^verbatim>\<open>on_open\<close> and
  \<^verbatim>\<open>on_message\<close> ask for are not part of this state.
\<close>

datatype ws_event = Opened | Message string | Error_event | Closed

fun deliver :: "ws_event \<Rightarrow> consumer \<Rightarrow> consumer" where
  "deliver Opened s =
     s\<lparr>ws := map_option (\<lambda>w. w\<lparr>sock_connected := True\<rparr>) (ws s), running := True\<rparr>"
| "deliver (Message m) s = s"
| "deliver Error_event s = s"
| "deliver Closed s =
     s\<lparr>ws := map_option (\<lambda>w. w\<lparr>sock_connected := False\<rparr>) (ws s), running := False\<rparr>"

text \<open>When \<^verbatim>\<open>run_forever\<close> returns, the socket is gone.\<close>

definition run_forever :: "ws_event list \<Rightarrow> consumer \<Rightarrow> consumer" where
  "run_forever evs s =
     (let s' = fold deliver evs s
      in s'\<lparr>ws := map_option (\<lambda>w. w\<lparr>sock_connected := False\<rparr>) (ws s')\<rparr>)"

text \<open>
  One call of \<^verbatim>\<open>_connect\<close> either returns, after \<^verbatim>\<open>run_forever\<close> has returned, or raises
  out of it. The statements run in this order: create the socket object and store it in
  \<^verbatim>\<open>_ws\<close>; await \<^verbatim>\<open>run_forever\<close>; create the heartbeat task.
\<close>

datatype attempt = Returns "ws_event list" | Raises "ws_event list"

datatype outcome = Normal | Raised

definition new_socket :: "consumer \<Rightarrow> consumer" where
  "new_socket s =
     (let ws_url = url s @ ''?apikey='' @ api_key s
      in s\<lparr>ws := Some \<lparr>app_url = ws_url, sock_connected = False, sent = []\<rparr>\<rparr>)"

definition connect :: "attempt \<Rightarrow> consumer \<Rightarrow> outcome \<times> consumer" where
  "connect att s =
     (let s1 = new_socket s
      in case att of
           Returns evs \<Rightarrow> (Normal, (run_forever evs s1)\<lparr>heartbeat_task := True\<rparr>)
         | Raises evs \<Rightarrow> (Raised, fold deliver evs s1))"

text \<open>
  \<^verbatim>\<open>_connect_with_retry\<close>. The outcomes of the successive attempts are given from outside;
  the result is the state when the loop ends or when the given attempts are used up,
  with the delays slept so far, oldest first.
\<close>

fun connect_with_retry :: "attempt list \<Rightarrow> consumer \<Rightarrow> consumer \<times> int list" where
  "connect_with_retry [] s = (s, [])"
| "connect_with_retry (att # rest) s =
     (if running s
      then (case connect att s of
              (Normal, s1) \<Rightarrow> connect_with_retry rest (s1\<lparr>reconnect_delay := 5\<rparr>)
            | (Raised, s1) \<Rightarrow>
                if running s1
                then (let (s2, sleeps) =
                            connect_with_retry rest
                              (s1\<lparr>reconnect_delay :=
                                    min (reconnect_delay s1 * 2) (max_reconnect_delay s1)\<rparr>)
                      in (s2, reconnect_delay s1 # sleeps))
                else connect_with_retry rest s1)
      else (s, []))"

definition start :: "attempt list \<Rightarrow> consumer \<Rightarrow> consumer \<times> int list" where
  "start atts s = connect_with_retry atts (s\<lparr>running := True\<rparr>)"

section \<open>Specification-side definitions\<close>




text \<open>
  The subscription set of one Topic in the specification's words: one frame on the last
  price channel keyed by \<^verbatim>\<open>rootMarketId\<close> for a categorical market, otherwise one frame per
  channel keyed by \<^verbatim>\<open>marketId\<close>.
\<close>

definition subscribe_frame :: "string \<Rightarrow> string \<Rightarrow> int \<Rightarrow> frame" where
  "subscribe_frame chan key mid =
     [(''action'', JStr ''SUBSCRIBE''), (''channel'', JStr chan), (key, JInt mid)]"

definition subscriptions_spec :: "int \<Rightarrow> string \<Rightarrow> frame list" where
  "subscriptions_spec mid otype =
     (if otype = ''categorical''
      then [subscribe_frame ''market.last.price'' ''rootMarketId'' mid]
      else [subscribe_frame ''market.last.price'' ''marketId'' mid,
            subscribe_frame ''market.depth.diff'' ''marketId'' mid,
            subscribe_frame ''market.last.trade'' ''marketId'' mid])"

section \<open>Sample data\<close>

text \<open>
  The sample Topics and keywords are ASCII text. On ASCII text \<^verbatim>\<open>lower\<close> maps the letters
  A to Z to a to z and nothing else, and \<^verbatim>\<open>split\<close> gives the maximal runs of characters
  other than the ASCII whitespace.
\<close>

definition ascii_lower_char :: "char \<Rightarrow> char" where
  "ascii_lower_char c =
     (let n = (of_char c :: nat) in if 65 \<le> n \<and> n \<le> 90 then char_of (n + 32) else c)"

definition ascii_lower :: "string \<Rightarrow> string" where
  "ascii_lower s = map ascii_lower_char s"

definition ascii_is_space :: "char \<Rightarrow> bool" where
  "ascii_is_space c = (let n = (of_char c :: nat) in (9 \<le> n \<and> n \<le> 13) \<or> (28 \<le> n \<and> n \<le> 32))"

fun ascii_split_acc :: "string \<Rightarrow> string \<Rightarrow> string list" where
  "ascii_split_acc w [] = (if w = [] then [] else [w])"
| "ascii_split_acc w (c # cs) =
     (if ascii_is_space c then (if w = [] then ascii_split_acc [] cs else w # ascii_split_acc [] cs)
      else ascii_split_acc (w @ [c]) cs)"

definition ascii_split :: "string \<Rightarrow> string list" where
  "ascii_split s = ascii_split_acc [] s"

definition ascii_ops :: str_ops where
  "ascii_ops = \<lparr>str_lower = ascii_lower, str_split = ascii_split\<rparr>"

definition mk_topic :: "int \<Rightarrow> string \<Rightarrow> string \<Rightarrow> Topic" where
  "mk_topic mid q otype =
     \<lparr>topic_id = q, market_id = mid, question = q, description = None, end_date = None,
      outcome_type = otype, volume = None, last_price = None, yes_price = None,
      no_price = None, liquidity = None, created_at = None, updated_at = None,
      categories = Some [], slug = None\<rparr>"

definition capital_sigma :: string where
  "capital_sigma = [CHR 0xCE, CHR 0xA3]"

definition odos :: string where
  "odos = [CHR 0xCE, CHR 0x9F, CHR 0xCE, CHR 0x94, CHR 0xCE, CHR 0x9F, CHR 0xCE, CHR 0xA3]"

text \<open>
  \<open>capital_sigma\<close> and \<open>odos\<close> are the UTF-8 bytes of the Greek capital letter sigma and
  of the Greek word for street in capitals, which ends in it. The interpreter lowers the
  former to the small sigma and the latter to small letters with the final sigma;
  \<open>sigma_lower\<close> does so on these two strings and is \<open>ascii_lower\<close> elsewhere.
\<close>

definition sigma_lower :: "string \<Rightarrow> string" where
  "sigma_lower s =
     (if s = capital_sigma then [CHR 0xCF, CHR 0x83]
      else if s = odos
      then [CHR 0xCE, CHR 0xBF, CHR 0xCE, CHR 0xB4, CHR 0xCE, CHR 0xBF, CHR 0xCF, CHR 0x82]
      else ascii_lower s)"

definition sigma_ops :: str_ops where
  "sigma_ops = \<lparr>str_lower = sigma_lower, str_split = ascii_split\<rparr>"

definition example_heap :: heap where
  "example_heap =
     (\<lambda>_. mk_topic 0 [] ''binary'')
       (1 := mk_topic 42 ''Will the Election be held?'' ''binary'',
        2 := mk_topic 7 ''Who wins?'' ''categorical'',
        3 := mk_topic 9 ''Rain before the election?'' ''binary'')"

definition sigma_heap :: heap where
  "sigma_heap = (\<lambda>_. mk_topic 0 [] ''binary'')(1 := mk_topic 11 odos ''binary'')"

definition empty_cache :: "int \<Rightarrow> cache_state" where
  "empty_cache n = CacheService_init n 10000 example_heap"

definition example_cache :: cache_state where
  "example_cache = initialize_topics ascii_ops [1, 2, 3] (empty_cache 10)"

definition example_settings :: settings where
  "example_settings =
     \<lparr>opinion_ws_api_key = ''key'', opinion_ws_url = ''wss://ws.opinion.trade'',
      opinion_ws_heartbeat_interval = 30\<rparr>"

definition fresh_consumer :: consumer where
  "fresh_consumer = consumer_init None None None example_settings"

definition open_consumer :: consumer where
  "open_consumer = deliver Opened (new_socket (fresh_consumer\<lparr>running := True\<rparr>))"

section \<open>Auxiliary facts\<close>

lemmas od_defs =
  od_contains_def od_del_def od_setitem_def od_popitem_first_def od_get_def od_values_def


lemmas example_defs =
  example_cache_def empty_cache_def CacheService_init_def example_heap_def mk_topic_def

subsection \<open>The ordered dictionary and \<open>set_topic\<close>\<close>

lemma od_setitem_nonempty: "od_setitem k v d \<noteq> []"
  by (auto simp: od_setitem_def od_contains_def)

lemma length_od_setitem: "length (od_setitem k v d) \<le> Suc (length d)"
  by (simp add: od_setitem_def)

text \<open>
  \<open>set_topic\<close> raises nothing: the deletion is guarded by the membership test, and
  \<open>popitem\<close> runs on a dictionary that has just received an item.
\<close>

lemma set_topic_Inr:
  "\<exists>d2. length d2 \<le> Suc (length (topics s)) \<and> d2 \<noteq> [] \<and>
        set_topic ops a s =
          Inr (s\<lparr>topics := (if int (length d2) > max_size s then tl d2 else d2),
                 search_index := update_search_index ops (heap s a) (search_index s)\<rparr>)"
proof -
  let ?mid = "market_id (heap s a)"
  define d1 where "d1 = (if od_contains ?mid (topics s)
                         then filter (\<lambda>kv. fst kv \<noteq> ?mid) (topics s) else topics s)"
  define d2 where "d2 = od_setitem ?mid a d1"
  have d1: "(if od_contains ?mid (topics s) then od_del ?mid (topics s) else Inr (topics s))
              = Inr d1"
    by (simp add: d1_def od_del_def)
  have "length d1 \<le> length (topics s)"
    by (simp add: d1_def)
  then have len: "length d2 \<le> Suc (length (topics s))"
    using length_od_setitem[of ?mid a d1] unfolding d2_def by linarith
  have ne: "d2 \<noteq> []"
    unfolding d2_def by (rule od_setitem_nonempty)
  then obtain x xs where c: "d2 = x # xs"
    by (cases d2) auto
  have "set_topic ops a s =
      Inr (s\<lparr>topics := (if int (length d2) > max_size s then tl d2 else d2),
             search_index := update_search_index ops (heap s a) (search_index s)\<rparr>)"
    unfolding set_topic_def Let_def d1 sum.case d2_def[symmetric]
    by (simp add: c od_popitem_first_def)
  with len ne show ?thesis by blast
qed

lemma set_topic_total: "\<exists>s'. set_topic ops a s = Inr s'"
  using set_topic_Inr[of s ops a] by blast

lemma set_topic_frame:
  assumes "set_topic ops a s = Inr s'"
  shows "heap s' = heap s" and "max_size s' = max_size s"
  using set_topic_Inr[of s ops a] assms by auto

lemma set_topic_bound:
  assumes "int (length (topics s)) \<le> max_size s" and "set_topic ops a s = Inr s'"
  shows "int (length (topics s')) \<le> max_size s"
proof -
  obtain d2 where len: "length d2 \<le> Suc (length (topics s))"
    and eq: "set_topic ops a s =
          Inr (s\<lparr>topics := (if int (length d2) > max_size s then tl d2 else d2),
                 search_index := update_search_index ops (heap s a) (search_index s)\<rparr>)"
    using set_topic_Inr[of s ops a] by blast
  from eq assms(2) have t: "topics s' = (if int (length d2) > max_size s then tl d2 else d2)"
    by auto
  show ?thesis
  proof (cases "int (length d2) > max_size s")
    case True
    with t len assms(1) show ?thesis by simp
  next
    case False
    with t show ?thesis by simp
  qed
qed

lemma upserts_bound:
  "int (length (topics s)) \<le> max_size s \<Longrightarrow>
   \<exists>s'. upserts ops as s = Inr s' \<and> int (length (topics s')) \<le> max_size s
        \<and> max_size s' = max_size s"
proof (induction as arbitrary: s)
  case Nil
  then show ?case by simp
next
  case (Cons a as)
  obtain s1 where s1: "set_topic ops a s = Inr s1"
    using set_topic_total by blast
  have m: "max_size s1 = max_size s"
    using set_topic_frame(2)[OF s1] .
  have "int (length (topics s1)) \<le> max_size s1"
    using set_topic_bound[OF Cons.prems s1] m by simp
  from Cons.IH[OF this] show ?case
    using s1 m by auto
qed

subsection \<open>In-place updates\<close>

lemma updated_at_comm:
  "(t::Topic)\<lparr>updated_at := u, no_price := n\<rparr> = t\<lparr>no_price := n, updated_at := u\<rparr>"
  "(t::Topic)\<lparr>updated_at := u, yes_price := y, last_price := l\<rparr>
     = t\<lparr>yes_price := y, last_price := l, updated_at := u\<rparr>"
  by (cases t, simp)+

lemma trade_message_as_update_price:
  "update_from_ws_message (LastTradeMessage mid tok side sd p sh am ty) now s
     = update_price mid side p now s"
  by (simp add: update_from_ws_message_def update_price_def Let_def updated_at_comm
      split: option.splits)

lemma price_message_as_update_price:
  "update_from_ws_message (LastPriceMessage mid tok side p ty) now s
     = update_price mid side p now s"
  by (simp add: update_from_ws_message_def update_price_def Let_def updated_at_comm
      split: option.splits)

lemma get_topic_in_all: "get_topic mid s = Some a \<Longrightarrow> a \<in> set (get_all_topics s)"
  by (auto simp: get_topic_def get_all_topics_def od_get_def od_values_def
      dest: map_of_SomeD intro: rev_image_eqI)

lemma heap_update_price_other:
  "get_topic mid s \<noteq> Some b \<Longrightarrow> heap (update_price mid side p now s) b = heap s b"
  by (auto simp: update_price_def get_topic_def Let_def split: option.splits)

lemma heap_update_ws_other:
  "get_topic (msg_market_id m) s \<noteq> Some b \<Longrightarrow>
   heap (update_from_ws_message m now s) b = heap s b"
  by (auto simp: update_from_ws_message_def get_topic_def Let_def split: option.splits)

text \<open>Neither kind of update touches the dictionary or the capacity.\<close>

lemma update_price_frame:
  "topics (update_price mid side p now s) = topics s"
  "max_size (update_price mid side p now s) = max_size s"
  by (simp_all add: update_price_def Let_def split: option.splits)

lemma update_from_ws_message_frame:
  "topics (update_from_ws_message m now s) = topics s"
  "max_size (update_from_ws_message m now s) = max_size s"
  by (simp_all add: update_from_ws_message_def Let_def split: option.splits)

subsection \<open>Search\<close>







text \<open>With a limit below 1 the loop still appends the first match before it tests.\<close>

lemma search_loop_nonpos:
  "limit \<le> 0 \<Longrightarrow>
   search_loop ops h q limit xs [] = take 1 (filter (\<lambda>a. search_match ops q (h a)) xs)"
  by (induction xs) (auto simp: Let_def)

section \<open>Claims about the topic cache\<close>

text \<open>
  Claim C8. For every sequence of upsert calls starting from an empty store with capacity
  \<open>max_size\<close>, no call raises and the store size after the sequence is at most
  \<open>max_size\<close>. A capacity is a non-negative number.
\<close>

theorem upserts_size_bound:
  assumes "topics s = []" and "0 \<le> max_size s"
  shows "\<exists>s'. upserts ops as s = Inr s' \<and> int (get_topic_count s') \<le> max_size s"
proof -
  have "int (length (topics s)) \<le> max_size s"
    using assms by simp
  from upserts_bound[OF this, of ops as] show ?thesis
    by (auto simp: get_topic_count_def)
qed

theorem upserts_size_bound_witness:
  "\<exists>s'. upserts ascii_ops [1, 2, 3, 1] (empty_cache 2) = Inr s' \<and>
        int (get_topic_count s') \<le> 2"
  using upserts_size_bound[of "empty_cache 2" ascii_ops "[1, 2, 3, 1]"]
  by (simp add: empty_cache_def CacheService_init_def)

text \<open>
  Claim C4. Eviction follows the order of the last insert-or-update. With
  \<open>max_size = 2\<close> and an empty store, upserting Topics A, B, C with distinct market ids
  leaves exactly B and C, in this order; upserting A, B, A again and then C leaves exactly
  A and C, so B was evicted. Reads return no new state, as \<^verbatim>\<open>OrderedDict.get\<close> and
  \<^verbatim>\<open>values\<close> do not reorder.
\<close>

theorem eviction_order:
  assumes "topics s = []" and "max_size s = 2"
    and "distinct [market_id (heap s a), market_id (heap s b), market_id (heap s c)]"
  shows "(\<exists>s'. upserts ops [a, b, c] s = Inr s' \<and>
            topics s' = [(market_id (heap s b), b), (market_id (heap s c), c)]) \<and>
         (\<exists>s'. upserts ops [a, b, a, c] s = Inr s' \<and>
            topics s' = [(market_id (heap s a), a), (market_id (heap s c), c)])"
  using assms by (simp add: set_topic_def Let_def od_defs)

theorem eviction_order_witness:
  "(\<exists>s'. upserts ascii_ops [1, 2, 3] (empty_cache 2) = Inr s' \<and>
      topics s' = [(7, 2), (9, 3)]) \<and>
   (\<exists>s'. upserts ascii_ops [1, 2, 1, 3] (empty_cache 2) = Inr s' \<and>
      topics s' = [(42, 1), (9, 3)])"
  using eviction_order[of "empty_cache 2" 1 2 3 ascii_ops]
  by (simp add: example_defs)

text \<open>
  Claim C1. The claim says that the store size is at most \<open>max_size\<close> after
  \<^verbatim>\<open>initialize_topics\<close> as well. The code assigns every Topic and evicts nothing: a store
  of capacity 1 holds two Topics after loading two.
\<close>

theorem initialize_topics_exceeds_max_size:
  "get_topic_count (empty_cache 1) = 0 \<and>
   get_topic_count (initialize_topics ops [1, 2] (empty_cache 1)) = 2 \<and>
   max_size (initialize_topics ops [1, 2] (empty_cache 1)) = 1"
  by (simp add: example_defs get_topic_count_def od_defs)

text \<open>
  Claim C6. \<^verbatim>\<open>update_price\<close> changes nothing when the market id is absent. When it is
  present, side 1 sets \<open>yes_price\<close> and \<open>last_price\<close> to the price, side 2 sets
  \<open>no_price\<close>, any other side leaves the three prices as they were, and in each case
  \<open>updated_at\<close> becomes the current time and the Topic stays under its key. A last-trade
  message, and a last-price message, acts exactly as \<^verbatim>\<open>update_price\<close> on its market id,
  side and price.
\<close>

theorem update_price_semantics:
  "(get_topic mid s = None \<longrightarrow> update_price mid side p now s = s) \<and>
   (get_topic mid s = Some a \<longrightarrow>
      (let t = heap s a; s' = update_price mid side p now s; t' = heap s' a
       in (side = 1 \<longrightarrow>
             yes_price t' = Some p \<and> last_price t' = Some p \<and> no_price t' = no_price t) \<and>
          (side = 2 \<longrightarrow>
             no_price t' = Some p \<and> yes_price t' = yes_price t \<and>
             last_price t' = last_price t) \<and>
          (side \<noteq> 1 \<and> side \<noteq> 2 \<longrightarrow>
             yes_price t' = yes_price t \<and> last_price t' = last_price t \<and>
             no_price t' = no_price t) \<and>
          updated_at t' = Some now \<and> topics s' = topics s)) \<and>
   update_from_ws_message (LastTradeMessage mid tok side sd p sh am ty) now s
     = update_price mid side p now s \<and>
   update_from_ws_message (LastPriceMessage mid tok side p ty) now s
     = update_price mid side p now s"
  by (simp add: trade_message_as_update_price price_message_as_update_price)
     (simp add: update_price_def get_topic_def Let_def)

theorem update_price_semantics_witness:
  "get_topic 5 example_cache = None \<and> update_price 5 1 ''0.55'' 7 example_cache = example_cache \<and>
   get_topic 42 example_cache = Some 1 \<and>
   yes_price (heap (update_price 42 1 ''0.55'' 7 example_cache) 1) = Some ''0.55'' \<and>
   last_price (heap (update_price 42 1 ''0.55'' 7 example_cache) 1) = Some ''0.55'' \<and>
   no_price (heap (update_price 42 1 ''0.55'' 7 example_cache) 1) = None \<and>
   updated_at (heap (update_price 42 1 ''0.55'' 7 example_cache) 1) = Some 7"
proof -
  have absent: "get_topic 5 example_cache = None"
    and present: "get_topic 42 example_cache = Some 1"
    and before: "no_price (heap example_cache 1) = None"
    by (simp_all add: example_defs get_topic_def od_defs)
  from update_price_semantics[of 5 example_cache 1 "''0.55''" 7 1] absent
  have 1: "update_price 5 1 ''0.55'' 7 example_cache = example_cache"
    by simp
  from update_price_semantics[of 42 example_cache 1 "''0.55''" 7 1] present before
  have 2: "yes_price (heap (update_price 42 1 ''0.55'' 7 example_cache) 1) = Some ''0.55'' \<and>
   last_price (heap (update_price 42 1 ''0.55'' 7 example_cache) 1) = Some ''0.55'' \<and>
   no_price (heap (update_price 42 1 ''0.55'' 7 example_cache) 1) = None \<and>
   updated_at (heap (update_price 42 1 ''0.55'' 7 example_cache) 1) = Some 7"
    by (simp add: Let_def)
  from absent present 1 2 show ?thesis by simp
qed

text \<open>
  Claim C10. When a typed message (depth diff, last price or last trade) is applied for a
  market id present in the store, the Topic's \<open>updated_at\<close> becomes the current time in
  every case; for a depth-diff message, and for a side other than 1 and 2, the three
  price fields keep their values.
\<close>

theorem ws_message_refreshes_updated_at:
  assumes "get_topic (msg_market_id m) s = Some a"
  shows "updated_at (heap (update_from_ws_message m now s) a) = Some now \<and>
         ((is_DepthDiffMessage m \<or> (msg_outcome_side m \<noteq> 1 \<and> msg_outcome_side m \<noteq> 2)) \<longrightarrow>
            yes_price (heap (update_from_ws_message m now s) a) = yes_price (heap s a) \<and>
            last_price (heap (update_from_ws_message m now s) a) = last_price (heap s a) \<and>
            no_price (heap (update_from_ws_message m now s) a) = no_price (heap s a))"
  using assms
  by (cases m) (simp_all add: update_from_ws_message_def get_topic_def Let_def)

theorem ws_message_refreshes_updated_at_witness:
  "get_topic 42 example_cache = Some 1 \<and>
   updated_at (heap (update_from_ws_message
      (DepthDiffMessage 42 ''tok'' 1 ''bids'' ''0.55'' ''10'' DEPTH_DIFF) 7 example_cache) 1) = Some 7 \<and>
   yes_price (heap (update_from_ws_message
      (DepthDiffMessage 42 ''tok'' 1 ''bids'' ''0.55'' ''10'' DEPTH_DIFF) 7 example_cache) 1) = None \<and>
   updated_at (heap (update_from_ws_message
      (LastPriceMessage 42 ''tok'' 3 ''0.55'' LAST_PRICE) 8 example_cache) 1) = Some 8 \<and>
   yes_price (heap (update_from_ws_message
      (LastPriceMessage 42 ''tok'' 3 ''0.55'' LAST_PRICE) 8 example_cache) 1) = None"
proof -
  have present: "get_topic 42 example_cache = Some 1"
    and before: "yes_price (heap example_cache 1) = None"
    by (simp_all add: example_defs get_topic_def od_defs)
  from ws_message_refreshes_updated_at
         [of "DepthDiffMessage 42 ''tok'' 1 ''bids'' ''0.55'' ''10'' DEPTH_DIFF" example_cache 1 7]
       ws_message_refreshes_updated_at
         [of "LastPriceMessage 42 ''tok'' 3 ''0.55'' LAST_PRICE" example_cache 1 8]
       present before
  show ?thesis by simp
qed

text \<open>
  Claim C3. The claim says that no Topic value seen through a list returned by
  \<^verbatim>\<open>get_all_topics\<close> changes when the store is mutated afterwards. The list is a new
  list of the same Topic objects, and a price update assigns to the stored object: the
  list taken before the update shows the new \<open>yes_price\<close>.
\<close>

theorem all_topics_reflects_price_update:
  "get_all_topics example_cache = [1, 2, 3] \<and>
   yes_price (heap example_cache 1) = None \<and>
   yes_price (heap (update_price 42 1 ''0.55'' 7 example_cache) 1) = Some ''0.55''"
  by (simp add: example_defs get_all_topics_def update_price_def od_defs)

text \<open>
  Claim C3, amended. The list returned by \<^verbatim>\<open>get_all_topics\<close> is a copy of the list of
  references. A later \<^verbatim>\<open>set_topic\<close> changes no Topic value seen through it. A later
  price update or typed message changes no element of it other than the Topic stored
  under the updated market id; that Topic is an element of the list, and the list shows
  its new \<open>updated_at\<close>.
\<close>

theorem all_topics_shallow_snapshot:
  "(set_topic ops a s = Inr s' \<longrightarrow>
      map (heap s') (get_all_topics s) = map (heap s) (get_all_topics s)) \<and>
   (\<forall>b\<in>set (get_all_topics s).
      get_topic mid s \<noteq> Some b \<longrightarrow> heap (update_price mid side p now s) b = heap s b) \<and>
   (\<forall>b\<in>set (get_all_topics s).
      get_topic (msg_market_id m) s \<noteq> Some b \<longrightarrow>
      heap (update_from_ws_message m now s) b = heap s b) \<and>
   (get_topic mid s = Some c \<longrightarrow>
      c \<in> set (get_all_topics s) \<and>
      updated_at (heap (update_price mid side p now s) c) = Some now)"
proof (intro conjI impI ballI)
  assume "set_topic ops a s = Inr s'"
  then show "map (heap s') (get_all_topics s) = map (heap s) (get_all_topics s)"
    by (simp add: set_topic_frame(1))
next
  fix b assume "get_topic mid s \<noteq> Some b"
  then show "heap (update_price mid side p now s) b = heap s b"
    by (rule heap_update_price_other)
next
  fix b assume "get_topic (msg_market_id m) s \<noteq> Some b"
  then show "heap (update_from_ws_message m now s) b = heap s b"
    by (rule heap_update_ws_other)
next
  assume "get_topic mid s = Some c"
  then show "c \<in> set (get_all_topics s)"
    by (rule get_topic_in_all)
next
  assume "get_topic mid s = Some c"
  then show "updated_at (heap (update_price mid side p now s) c) = Some now"
    by (simp add: update_price_def get_topic_def Let_def)
qed

theorem all_topics_shallow_snapshot_witness:
  "(\<exists>s'. set_topic ascii_ops 0 example_cache = Inr s' \<and>
      map (heap s') (get_all_topics example_cache)
        = map (heap example_cache) (get_all_topics example_cache)) \<and>
   get_all_topics example_cache = [1, 2, 3] \<and> get_topic 42 example_cache = Some 1 \<and>
   heap (update_price 42 1 ''0.55'' 7 example_cache) 2 = heap example_cache 2 \<and>
   heap (update_from_ws_message (LastPriceMessage 42 ''tok'' 1 ''0.55'' LAST_PRICE) 7
           example_cache) 3 = heap example_cache 3 \<and>
   updated_at (heap (update_price 42 1 ''0.55'' 7 example_cache) 1) = Some 7"
proof -
  obtain s' where s': "set_topic ascii_ops 0 example_cache = Inr s'"
    using set_topic_total by blast
  have all: "get_all_topics example_cache = [1, 2, 3]"
    and present: "get_topic 42 example_cache = Some 1"
    by (simp_all add: example_defs get_all_topics_def get_topic_def od_defs)
  from all_topics_shallow_snapshot
         [of ascii_ops 0 example_cache s' 42 1 "''0.55''" 7
             "LastPriceMessage 42 ''tok'' 1 ''0.55'' LAST_PRICE" 1]
       s' all present
  show ?thesis by simp
qed




text \<open>
  Lowering both sides is not a comparison that ignores case on all text. With the
  interpreter's \<^verbatim>\<open>lower\<close>, a capital sigma at the end of a word becomes the final
  sigma, and alone it becomes the ordinary one: the question of the sample Topic below
  contains the keyword letter for letter, and \<^verbatim>\<open>search\<close> does not find it.
\<close>

lemma search_misses_final_sigma:
  "(\<exists>ps ss. question (sigma_heap 1) = ps @ capital_sigma @ ss) \<and>
   search sigma_ops capital_sigma 10
     (initialize_topics sigma_ops [1] (CacheService_init 10 10000 sigma_heap)) = []"
proof -
  have "question (sigma_heap 1) = [CHR 0xCE, CHR 0x9F, CHR 0xCE, CHR 0x94, CHR 0xCE, CHR 0x9F]
          @ capital_sigma @ []"
    by (simp add: sigma_heap_def mk_topic_def odos_def capital_sigma_def)
  then have 1: "\<exists>ps ss. question (sigma_heap 1) = ps @ capital_sigma @ ss"
    by blast
  have 2: "search sigma_ops capital_sigma 10
     (initialize_topics sigma_ops [1] (CacheService_init 10 10000 sigma_heap)) = []"
    by (simp add: search_def search_match_def CacheService_init_def sigma_heap_def mk_topic_def
        sigma_ops_def sigma_lower_def odos_def capital_sigma_def od_defs)
  from 1 2 show ?thesis by simp
qed

section \<open>Claims about the stream consumer\<close>

subsection \<open>Auxiliary facts\<close>

lemma deliver_delay [simp]:
  "reconnect_delay (deliver e s) = reconnect_delay s"
  "max_reconnect_delay (deliver e s) = max_reconnect_delay s"
  "heartbeat_task (deliver e s) = heartbeat_task s"
  by (cases e; simp)+

lemma fold_deliver_delay [simp]:
  "reconnect_delay (fold deliver evs s) = reconnect_delay s"
  "max_reconnect_delay (fold deliver evs s) = max_reconnect_delay s"
  "heartbeat_task (fold deliver evs s) = heartbeat_task s"
  by (induction evs arbitrary: s) simp_all

lemma new_socket_fields [simp]:
  "reconnect_delay (new_socket s) = reconnect_delay s"
  "max_reconnect_delay (new_socket s) = max_reconnect_delay s"
  "heartbeat_task (new_socket s) = heartbeat_task s"
  "running (new_socket s) = running s"
  by (simp_all add: new_socket_def Let_def)

lemma fold_deliver_running:
  "running s \<Longrightarrow> Closed \<notin> set evs \<Longrightarrow> running (fold deliver evs s)"
proof (induction evs arbitrary: s)
  case Nil
  then show ?case by simp
next
  case (Cons e evs)
  then have "running (deliver e s)" by (cases e) auto
  with Cons show ?case by simp
qed

lemma double_capped: "min (min (5 * 2 ^ k) 60 * 2) (60::int) = min (5 * 2 ^ Suc k) 60"
  by (simp add: min_def)

text \<open>
  The sleep and the doubling sit in the \<^verbatim>\<open>except\<close> branch behind the test of \<^verbatim>\<open>_running\<close>.
  Over attempts that raise with no close event, the loop keeps this invariant: after
  \<open>k\<close> doublings the delay is \<open>min (5 * 2 ^ k) 60\<close>, and each such attempt sleeps the
  delay it finds.
\<close>

lemma retry_failures:
  assumes "\<forall>att\<in>set fails. \<exists>evs. att = Raises evs \<and> Closed \<notin> set evs"
    and "running s" and "max_reconnect_delay s = 60"
    and "reconnect_delay s = min (5 * 2 ^ k) 60"
  shows "reconnect_delay (fst (connect_with_retry fails s))
           = min (5 * 2 ^ (k + length fails)) 60 \<and>
         snd (connect_with_retry fails s)
           = map (\<lambda>i. min (5 * 2 ^ i) 60) [k..<k + length fails]"
  using assms
proof (induction fails arbitrary: s k)
  case Nil
  then show ?case by simp
next
  case (Cons att fails)
  from Cons.prems(1) obtain evs where att: "att = Raises evs" "Closed \<notin> set evs"
    by auto
  define s1 where "s1 = fold deliver evs (new_socket s)"
  define s2 where
    "s2 = s1\<lparr>reconnect_delay := min (reconnect_delay s1 * 2) (max_reconnect_delay s1)\<rparr>"
  have r1: "running s1"
    using Cons.prems(2) att(2) by (simp add: s1_def fold_deliver_running)
  have c: "connect att s = (Raised, s1)"
    by (simp add: connect_def att s1_def)
  have step: "connect_with_retry (att # fails) s =
      (fst (connect_with_retry fails s2), reconnect_delay s1 # snd (connect_with_retry fails s2))"
    using Cons.prems(2) r1 c by (simp add: split_beta s2_def)
  have d1: "reconnect_delay s1 = min (5 * 2 ^ k) 60" and m1: "max_reconnect_delay s1 = 60"
    using Cons.prems(3,4) by (simp_all add: s1_def)
  have d2: "reconnect_delay s2 = min (5 * 2 ^ Suc k) 60"
    using d1 m1 by (simp add: s2_def double_capped)
  have ih: "reconnect_delay (fst (connect_with_retry fails s2))
              = min (5 * 2 ^ (Suc k + length fails)) 60 \<and>
            snd (connect_with_retry fails s2)
              = map (\<lambda>i. min (5 * 2 ^ i) 60) [Suc k..<Suc k + length fails]"
    using Cons.prems(1) r1 m1 d2 by (intro Cons.IH) (simp_all add: s2_def)
  have "k < k + length (att # fails)" by simp
  from upt_conv_Cons[OF this]
  have "[k..<k + length (att # fails)] = k # [Suc k..<Suc k + length fails]" by simp
  with ih step d1 show ?case by simp
qed

lemma heartbeat_loop_closed:
  "(\<forall>w. ws s = Some w \<longrightarrow> \<not> sock_connected w) \<Longrightarrow> heartbeat_loop n s = s"
  by (cases n) (auto simp: ws_send_def split: option.splits)

text \<open>
  On a connected socket a running consumer sends one heartbeat frame per round, and
  \<^verbatim>\<open>_subscribe_all_markets\<close> sends the subscription sets of the Topics in list order.
\<close>

lemma heartbeat_loop_connected:
  "running s \<Longrightarrow> ws s = Some w \<Longrightarrow> sock_connected w \<Longrightarrow>
   heartbeat_loop n s = s\<lparr>ws := Some (w\<lparr>sent := sent w @ replicate n heartbeat_frame\<rparr>)\<rparr>"
proof (induction n arbitrary: s w)
  case 0
  then show ?case by simp
next
  case (Suc n)
  let ?w1 = "w\<lparr>sent := sent w @ [heartbeat_frame]\<rparr>"
  let ?s1 = "s\<lparr>ws := Some ?w1\<rparr>"
  have "running ?s1" "ws ?s1 = Some ?w1" "sock_connected ?w1"
    using Suc.prems by simp_all
  from Suc.IH[OF this] Suc.prems show ?case
    by (simp add: ws_send_def replicate_append_same)
qed

lemma subscribe_each_frames:
  "ws s = Some w \<Longrightarrow> sock_connected w \<Longrightarrow>
   subscribe_each h as s
     = Inr (s\<lparr>ws := Some (w\<lparr>sent := sent w @
               concat (map (\<lambda>a. subscriptions_spec (market_id (h a)) (outcome_type (h a))) as)\<rparr>)\<rparr>)"
proof (induction as arbitrary: s w)
  case Nil
  then show ?case by simp
next
  case (Cons a as)
  let ?fs = "subscriptions_spec (market_id (h a)) (outcome_type (h a))"
  let ?w1 = "w\<lparr>sent := sent w @ ?fs\<rparr>"
  let ?s1 = "s\<lparr>ws := Some ?w1\<rparr>"
  have 1: "subscribe_market (market_id (h a)) (outcome_type (h a)) s = Inr ?s1"
    using Cons.prems
    by (simp add: subscribe_market_def ws_send_def to_json_def subscriptions_spec_def
        subscribe_frame_def)
  have "ws ?s1 = Some ?w1" "sock_connected ?w1"
    using Cons.prems by simp_all
  from Cons.IH[OF this] 1 show ?case by simp
qed

subsection \<open>Claims\<close>

text \<open>
  Claim C9. On a consumer whose socket is connected, \<^verbatim>\<open>_subscribe_market\<close> sends exactly
  the subscription set of the Topic: for outcome type \<^verbatim>\<open>categorical\<close> one subscribe frame
  on the last-price channel carrying \<^verbatim>\<open>rootMarketId = market_id\<close>; for every other outcome
  type three subscribe frames carrying \<^verbatim>\<open>marketId = market_id\<close>, one each on the last-price,
  depth-diff and last-trade channels.
\<close>

theorem subscribe_market_frames:
  assumes "ws s = Some w" and "sock_connected w"
  shows "subscribe_market mid otype s
           = Inr (s\<lparr>ws := Some (w\<lparr>sent := sent w @ subscriptions_spec mid otype\<rparr>)\<rparr>)"
  using assms
  by (simp add: subscribe_market_def ws_send_def to_json_def subscriptions_spec_def
      subscribe_frame_def)

theorem subscribe_market_frames_witness:
  "(\<exists>s'. subscribe_market 7 ''categorical'' open_consumer = Inr s' \<and>
      map_option sent (ws s') =
        Some [[(''action'', JStr ''SUBSCRIBE''), (''channel'', JStr ''market.last.price''),
               (''rootMarketId'', JInt 7)]]) \<and>
   (\<exists>s'. subscribe_market 9 ''binary'' open_consumer = Inr s' \<and>
      map_option sent (ws s') =
        Some [[(''action'', JStr ''SUBSCRIBE''), (''channel'', JStr ''market.last.price''),
               (''marketId'', JInt 9)],
              [(''action'', JStr ''SUBSCRIBE''), (''channel'', JStr ''market.depth.diff''),
               (''marketId'', JInt 9)],
              [(''action'', JStr ''SUBSCRIBE''), (''channel'', JStr ''market.last.trade''),
               (''marketId'', JInt 9)]])"
proof -
  define w where "w = \<lparr>app_url = ''wss://ws.opinion.trade?apikey=key'', sock_connected = True,
                       sent = []\<rparr>"
  have o: "ws open_consumer = Some w" and c: "sock_connected w" and e: "sent w = []"
    by (simp_all add: w_def open_consumer_def fresh_consumer_def consumer_init_def
        new_socket_def example_settings_def str_or_def)
  show ?thesis
    using subscribe_market_frames[OF o c, of 7 "''categorical''"]
          subscribe_market_frames[OF o c, of 9 "''binary''"] e
    by (simp add: subscriptions_spec_def subscribe_frame_def)
qed

text \<open>
  Claim C5. The claim says that after \<open>k\<close> consecutive connection failures the delay
  is \<open>min (5 * 2 ^ k) 60\<close>. A connection that is refused, or that the peer closes, is
  reported by the library through the error and close callbacks. \<^verbatim>\<open>on_close\<close> clears
  \<^verbatim>\<open>_running\<close>, so whether \<^verbatim>\<open>run_forever\<close> then returns or raises, the retry loop ends
  without sleeping and without doubling, whatever attempts would follow: after one
  refused connection on a fresh consumer the delay is 5, not 10, and nothing is retried.
\<close>

theorem closed_connection_ends_retry_without_backoff:
  "start (Returns [Error_event, Closed] # rest) fresh_consumer
     = (fst (start [Returns [Error_event, Closed]] fresh_consumer), []) \<and>
   reconnect_delay (fst (start [Returns [Error_event, Closed]] fresh_consumer)) = 5 \<and>
   min (5 * 2 ^ 1) 60 = (10::int) \<and>
   snd (start (Returns (evs @ [Closed]) # rest) s) = [] \<and>
   reconnect_delay (fst (start (Returns (evs @ [Closed]) # rest) s)) = 5 \<and>
   \<not> running (fst (start (Returns (evs @ [Closed]) # rest) s)) \<and>
   snd (start (Raises (evs @ [Closed]) # rest) s) = [] \<and>
   reconnect_delay (fst (start (Raises (evs @ [Closed]) # rest) s)) = reconnect_delay s \<and>
   \<not> running (fst (start (Raises (evs @ [Closed]) # rest) s))"
proof -
  have closed: "\<not> running (fold deliver (evs' @ [Closed]) s')" for evs' s'
    by simp
  have ret: "connect_with_retry (Returns (evs' @ [Closed]) # rest') (s'\<lparr>running := True\<rparr>)
      = ((run_forever (evs' @ [Closed]) (new_socket (s'\<lparr>running := True\<rparr>)))
           \<lparr>heartbeat_task := True, reconnect_delay := 5\<rparr>, [])" for evs' rest' s'
    by (cases rest') (simp_all add: connect_def run_forever_def Let_def)
  have rai: "connect_with_retry (Raises (evs' @ [Closed]) # rest') (s'\<lparr>running := True\<rparr>)
      = (fold deliver (evs' @ [Closed]) (new_socket (s'\<lparr>running := True\<rparr>)), [])"
    for evs' rest' s'
    by (cases rest') (simp_all add: connect_def Let_def)
  have one: "start (Returns [Error_event, Closed] # rest) fresh_consumer
     = (fst (start [Returns [Error_event, Closed]] fresh_consumer), [])"
    using ret[of "[Error_event]" rest fresh_consumer] ret[of "[Error_event]" "[]" fresh_consumer]
    by (simp add: start_def)
  show ?thesis
    unfolding one
    using ret[of "[Error_event]" "[]" fresh_consumer] ret[of evs rest s] rai[of evs rest s]
    by (simp add: start_def run_forever_def Let_def)
qed

text \<open>
  Claim C2. The claim says that the heartbeat starts when the connection succeeds and
  is sent while it lasts. \<^verbatim>\<open>_connect\<close> creates the heartbeat task only after
  \<^verbatim>\<open>run_forever\<close> has returned: at no point of the connection, whatever events it sees, has
  the call created the task, and once it has, the socket is gone and the loop, however
  many rounds it is given, sends nothing.
\<close>

theorem heartbeat_starts_after_connection_ends:
  "heartbeat_task (fold deliver (take j evs) (new_socket s)) = heartbeat_task s \<and>
   fst (connect (Returns evs) s) = Normal \<and>
   heartbeat_task (snd (connect (Returns evs) s)) \<and>
   heartbeat_loop n (snd (connect (Returns evs) s)) = snd (connect (Returns evs) s)"
  by (auto simp: connect_def run_forever_def Let_def new_socket_def
      intro!: heartbeat_loop_closed split: option.splits)

end
